theory Spec2Isabelle
  imports Main "HOL-Library.Word"
begin

section \<open>The LCD driver, as the wrapper uses it\<close>

text \<open>
  \<^verbatim>\<open>LCD.hpp\<close> wraps one object of the class \<^verbatim>\<open>LiquidCrystal_I2C\<close>, which comes from
  \<^verbatim>\<open>LiquidCrystal_I2C.h\<close>, a third-party header outside the repository. The wrapper uses
  seven things of it: the three-argument constructor and the methods \<^verbatim>\<open>init\<close>,
  \<^verbatim>\<open>backlight\<close>, \<^verbatim>\<open>setCursor\<close>, \<^verbatim>\<open>print\<close>, \<^verbatim>\<open>clear\<close> and \<^verbatim>\<open>write\<close>. The driver is
  therefore a parameter of the model: any state type \<open>'d\<close> with these seven operations.
  Each method is a transformer of the driver's state; what a method returns is dropped by
  every call in \<^verbatim>\<open>LCD.hpp\<close>, so it is not part of the interface.

  The C++ type \<^verbatim>\<open>int\<close> is the type parameter \<open>'i\<close> of the interface: the wrapper does
  no arithmetic on an \<^verbatim>\<open>int\<close>, so its methods are defined for every representation. The
  recording driver below takes machine integers \<open>'w word\<close> of any width \<open>'w\<close>, and the
  concrete instances \<open>16 word\<close>, the \<^verbatim>\<open>int\<close> of an AVR board, where \<open>- 1\<close> is the bit
  pattern \<open>0xFFFF\<close>. The driver's methods are taken at the types of the
  argument expressions the wrapper writes: two \<^verbatim>\<open>int\<close>s for \<^verbatim>\<open>setCursor\<close>, a C string
  for \<^verbatim>\<open>print\<close>, a \<^verbatim>\<open>char\<close> for \<^verbatim>\<open>write\<close>. A C string is the list of its characters
  before the terminating NUL.
\<close>

record ('d, 'i) driver =
  lcd_new :: "nat \<Rightarrow> nat \<Rightarrow> nat \<Rightarrow> 'd"
  lcd_init :: "'d \<Rightarrow> 'd"
  lcd_backlight :: "'d \<Rightarrow> 'd"
  lcd_setCursor :: "'i \<Rightarrow> 'i \<Rightarrow> 'd \<Rightarrow> 'd"
  lcd_print :: "string \<Rightarrow> 'd \<Rightarrow> 'd"
  lcd_clear :: "'d \<Rightarrow> 'd"
  lcd_write :: "char \<Rightarrow> 'd \<Rightarrow> 'd"

subsection \<open>A recording driver\<close>

text \<open>
  The instance of the interface that keeps the constructor's arguments and appends every
  call, with its arguments, to a log. What a wrapper method passes to the driver, and in
  which order, is read off the log.
\<close>

datatype 'i driver_call =
    LcdInit
  | LcdBacklight
  | LcdSetCursor "'i" "'i"
  | LcdPrint string
  | LcdClear
  | LcdWrite char

record 'i recorder =
  addr :: nat
  cols :: nat
  rows :: nat
  calls :: "'i driver_call list"

definition record_call :: "'i driver_call \<Rightarrow> 'i recorder \<Rightarrow> 'i recorder" where
  "record_call c d = d\<lparr>calls := calls d @ [c]\<rparr>"

definition recording :: "('w::len word recorder, 'w word) driver" where
  "recording =
     \<lparr>lcd_new = (\<lambda>a c r. \<lparr>addr = a, cols = c, rows = r, calls = []\<rparr>),
      lcd_init = (\<lambda>d. record_call LcdInit d),
      lcd_backlight = (\<lambda>d. record_call LcdBacklight d),
      lcd_setCursor = (\<lambda>x y. record_call (LcdSetCursor x y)),
      lcd_print = (\<lambda>s. record_call (LcdPrint s)),
      lcd_clear = (\<lambda>d. record_call LcdClear d),
      lcd_write = (\<lambda>c. record_call (LcdWrite c))\<rparr>"

section \<open>The C library's \<^verbatim>\<open>vsnprintf\<close>\<close>

text \<open>
  \<^verbatim>\<open>vsnprintf(s, n, format, ap)\<close> expands \<^verbatim>\<open>format\<close> with the arguments \<^verbatim>\<open>ap\<close>, stores
  at most \<^verbatim>\<open>n - 1\<close> characters of the expansion in \<^verbatim>\<open>s\<close>, stores a NUL after them, and
  returns the length of the whole expansion. With \<^verbatim>\<open>n = 0\<close> it stores nothing. The
  expansion itself, \<open>vformat\<close>, is a parameter: the function from a format string and an
  argument list (of any type \<open>'a\<close>) to the characters \<^verbatim>\<open>printf\<close> would produce. It is a
  total function: a conversion that fails inside the C library is outside the model.

  The array \<^verbatim>\<open>s\<close> is the list of its bytes. A store beyond the end of the array would
  show as a longer list.
\<close>

definition NUL :: char where
  "NUL = CHR 0x00"

definition c_str :: "string \<Rightarrow> string" where
  "c_str s = takeWhile (\<lambda>c. c \<noteq> NUL) s"

definition vsnprintf ::
  "(string \<Rightarrow> 'a \<Rightarrow> string) \<Rightarrow> string \<Rightarrow> nat \<Rightarrow> string \<Rightarrow> 'a \<Rightarrow> int \<times> string" where
  "vsnprintf vformat s n format ap =
     (let out = vformat format ap in
      (int (length out),
       if n = 0 then s
       else (let k = min (length out) (n - 1) in take k out @ NUL # drop (Suc k) s)))"

section \<open>The class \<^verbatim>\<open>LCD_Display\<close>\<close>

text \<open>
  The class has one data member, the private \<^verbatim>\<open>lcd\<close>. The methods are defined on the
  record scheme, so that they apply to any object that has an \<^verbatim>\<open>LCD_Display\<close> part:
  \<open>LCD_Display.more\<close> stands for everything else such an object holds.
\<close>

record 'd LCD_Display =
  lcd :: 'd

text \<open>\<^verbatim>\<open>LCD_Display() : lcd(0x27, 20, 4) {}\<close>\<close>

definition LCD_Display_new :: "('d, 'i) driver \<Rightarrow> 'd LCD_Display" where
  "LCD_Display_new D = \<lparr>lcd = lcd_new D 0x27 20 4\<rparr>"

text \<open>\<^verbatim>\<open>LiquidCrystal_I2C get_lcd() { return lcd; }\<close>: the result is returned by value.\<close>

definition get_lcd :: "('d, 'z) LCD_Display_scheme \<Rightarrow> 'd \<times> ('d, 'z) LCD_Display_scheme" where
  "get_lcd this = (lcd this, this)"

definition init_display ::
  "('d, 'i) driver \<Rightarrow> ('d, 'z) LCD_Display_scheme \<Rightarrow> ('d, 'z) LCD_Display_scheme" where
  "init_display D this =
     (let this = this\<lparr>lcd := lcd_init D (lcd this)\<rparr>
      in this\<lparr>lcd := lcd_backlight D (lcd this)\<rparr>)"

text \<open>\<^verbatim>\<open>print\<close> is overloaded; \<open>print_xy\<close> is \<^verbatim>\<open>print(int x, int y, const char* message)\<close>.\<close>

definition print_xy ::
  "('d, 'i) driver \<Rightarrow> 'i \<Rightarrow> 'i \<Rightarrow> string \<Rightarrow>
   ('d, 'z) LCD_Display_scheme \<Rightarrow> ('d, 'z) LCD_Display_scheme" where
  "print_xy D x y message this =
     (let this = this\<lparr>lcd := lcd_setCursor D x y (lcd this)\<rparr>
      in this\<lparr>lcd := lcd_print D message (lcd this)\<rparr>)"

definition clear ::
  "('d, 'i) driver \<Rightarrow> ('d, 'z) LCD_Display_scheme \<Rightarrow> ('d, 'z) LCD_Display_scheme" where
  "clear D this = this\<lparr>lcd := lcd_clear D (lcd this)\<rparr>"

definition set_cursor ::
  "('d, 'i) driver \<Rightarrow> 'i \<Rightarrow> 'i \<Rightarrow>
   ('d, 'z) LCD_Display_scheme \<Rightarrow> ('d, 'z) LCD_Display_scheme" where
  "set_cursor D x y this = this\<lparr>lcd := lcd_setCursor D x y (lcd this)\<rparr>"

text \<open>\<open>print\<close> is \<^verbatim>\<open>print(const char* message)\<close>.\<close>

definition print ::
  "('d, 'i) driver \<Rightarrow> string \<Rightarrow> ('d, 'z) LCD_Display_scheme \<Rightarrow> ('d, 'z) LCD_Display_scheme" where
  "print D message this = this\<lparr>lcd := lcd_print D message (lcd this)\<rparr>"

text \<open>
  \<^verbatim>\<open>writeString\<close> has the local array \<^verbatim>\<open>char buffer[128]\<close>, which starts with
  indeterminate contents: \<open>uninit i\<close> is the byte found at index \<open>i\<close>. \<^verbatim>\<open>sizeof(buffer)\<close>
  is the length of the array. The value \<^verbatim>\<open>vsnprintf\<close> returns is dropped. The driver's
  \<^verbatim>\<open>print\<close> receives the pointer \<^verbatim>\<open>buffer\<close> and so reads the C string that starts there.
\<close>

definition writeString ::
  "('d, 'i) driver \<Rightarrow> (string \<Rightarrow> 'a \<Rightarrow> string) \<Rightarrow> (nat \<Rightarrow> char) \<Rightarrow>
   'i \<Rightarrow> 'i \<Rightarrow> string \<Rightarrow> 'a \<Rightarrow>
   ('d, 'z) LCD_Display_scheme \<Rightarrow> ('d, 'z) LCD_Display_scheme" where
  "writeString D vformat uninit x y format args this =
     (let buffer = map uninit [0..<128];
          (r, buffer) = vsnprintf vformat buffer (length buffer) format args;
          this = this\<lparr>lcd := lcd_setCursor D x y (lcd this)\<rparr>
      in this\<lparr>lcd := lcd_print D (c_str buffer) (lcd this)\<rparr>)"

text \<open>\<open>write_char\<close> is \<^verbatim>\<open>write(char character)\<close>.\<close>

definition write_char ::
  "('d, 'i) driver \<Rightarrow> char \<Rightarrow> ('d, 'z) LCD_Display_scheme \<Rightarrow> ('d, 'z) LCD_Display_scheme" where
  "write_char D character this = this\<lparr>lcd := lcd_write D character (lcd this)\<rparr>"

section \<open>The interface of the class\<close>

text \<open>
  The members of the class in the order of their declaration, each with the access the
  class body gives it: \<^verbatim>\<open>lcd\<close> stands under \<^verbatim>\<open>private:\<close>, everything else under
  \<^verbatim>\<open>public:\<close>.
\<close>

datatype member =
    M_lcd
  | M_LCD_Display
  | M_get_lcd
  | M_init_display
  | M_print_xy
  | M_clear
  | M_set_cursor
  | M_print
  | M_writeString
  | M_write

datatype access = Private | Public

datatype member_kind = Data_member | Constructor | Method

fun access_of :: "member \<Rightarrow> access" where
  "access_of M_lcd = Private"
| "access_of M_LCD_Display = Public"
| "access_of M_get_lcd = Public"
| "access_of M_init_display = Public"
| "access_of M_print_xy = Public"
| "access_of M_clear = Public"
| "access_of M_set_cursor = Public"
| "access_of M_print = Public"
| "access_of M_writeString = Public"
| "access_of M_write = Public"

fun kind_of :: "member \<Rightarrow> member_kind" where
  "kind_of M_lcd = Data_member"
| "kind_of M_LCD_Display = Constructor"
| "kind_of m = Method"

definition members :: "member list" where
  "members =
     [M_lcd, M_LCD_Display, M_get_lcd, M_init_display, M_print_xy, M_clear, M_set_cursor,
      M_print, M_writeString, M_write]"

definition public_methods :: "member list" where
  "public_methods = filter (\<lambda>m. access_of m = Public \<and> kind_of m = Method) members"

text \<open>
  A call of a public method from outside, with its arguments, and what the caller gets
  back: nothing from the \<^verbatim>\<open>void\<close> methods, a driver object from \<^verbatim>\<open>get_lcd\<close>. No method
  has a \<^verbatim>\<open>throw\<close> or another way to leave, so a result has no error case.
\<close>

datatype ('i, 'a) method_call =
    Call_get_lcd
  | Call_init_display
  | Call_print_xy 'i 'i string
  | Call_clear
  | Call_set_cursor 'i 'i
  | Call_print string
  | Call_writeString 'i 'i string 'a
  | Call_write char

datatype 'd result = Void | Returned 'd

fun method_of :: "('i, 'a) method_call \<Rightarrow> member" where
  "method_of Call_get_lcd = M_get_lcd"
| "method_of Call_init_display = M_init_display"
| "method_of (Call_print_xy x y message) = M_print_xy"
| "method_of Call_clear = M_clear"
| "method_of (Call_set_cursor x y) = M_set_cursor"
| "method_of (Call_print message) = M_print"
| "method_of (Call_writeString x y format args) = M_writeString"
| "method_of (Call_write character) = M_write"

fun invoke ::
  "('d, 'i) driver \<Rightarrow> (string \<Rightarrow> 'a \<Rightarrow> string) \<Rightarrow> (nat \<Rightarrow> char) \<Rightarrow>
   ('i, 'a) method_call \<Rightarrow> ('d, 'z) LCD_Display_scheme \<Rightarrow>
   'd result \<times> ('d, 'z) LCD_Display_scheme" where
  "invoke D vformat uninit Call_get_lcd this =
     (case get_lcd this of (r, this') \<Rightarrow> (Returned r, this'))"
| "invoke D vformat uninit Call_init_display this = (Void, init_display D this)"
| "invoke D vformat uninit (Call_print_xy x y message) this = (Void, print_xy D x y message this)"
| "invoke D vformat uninit Call_clear this = (Void, clear D this)"
| "invoke D vformat uninit (Call_set_cursor x y) this = (Void, set_cursor D x y this)"
| "invoke D vformat uninit (Call_print message) this = (Void, print D message this)"
| "invoke D vformat uninit (Call_writeString x y format args) this =
     (Void, writeString D vformat uninit x y format args this)"
| "invoke D vformat uninit (Call_write character) this = (Void, write_char D character this)"

text \<open>A sequence of calls on one object, each on the state the one before left.\<close>

fun invoke_all ::
  "('d, 'i) driver \<Rightarrow> (string \<Rightarrow> 'a \<Rightarrow> string) \<Rightarrow> (nat \<Rightarrow> char) \<Rightarrow>
   ('i, 'a) method_call list \<Rightarrow> ('d, 'z) LCD_Display_scheme \<Rightarrow> ('d, 'z) LCD_Display_scheme" where
  "invoke_all D vformat uninit [] this = this"
| "invoke_all D vformat uninit (c # cs) this =
     invoke_all D vformat uninit cs (snd (invoke D vformat uninit c this))"

text \<open>
  The operations the specification lists as the interface of the class:
  \<^verbatim>\<open>init_display()\<close>, \<^verbatim>\<open>print(x,y,msg)\<close>, \<^verbatim>\<open>print(msg)\<close>, \<^verbatim>\<open>clear()\<close>,
  \<^verbatim>\<open>set_cursor(x,y)\<close>, \<^verbatim>\<open>writeString(x,y,format,...)\<close> and \<^verbatim>\<open>write(char)\<close>.
\<close>

definition spec_operations :: "member list" where
  "spec_operations =
     [M_init_display, M_print_xy, M_print, M_clear, M_set_cursor, M_writeString, M_write]"

section \<open>A reference formatter\<close>

text \<open>
  For concrete calls of \<^verbatim>\<open>writeString\<close> the expansion has to be a concrete function.
  \<open>format_c\<close> expands the conversions \<^verbatim>\<open>%d\<close>, \<^verbatim>\<open>%s\<close>, \<^verbatim>\<open>%c\<close> and \<^verbatim>\<open>%%\<close> as
  \<^verbatim>\<open>printf\<close> does and copies every other character. The theorems below hold for every
  expansion; \<open>format_c\<close> only serves to evaluate them.
\<close>

datatype arg = IntArg int | StrArg string | CharArg char

fun decimal :: "nat \<Rightarrow> string" where
  "decimal n =
     (if n < 10 then [char_of (48 + n)] else decimal (n div 10) @ [char_of (48 + n mod 10)])"

definition convert :: "char \<Rightarrow> arg \<Rightarrow> string" where
  "convert d a =
     (case a of
        IntArg i \<Rightarrow>
          (if d = CHR ''d'' then (if i < 0 then CHR ''-'' # decimal (nat (- i)) else decimal (nat i))
           else [])
      | StrArg s \<Rightarrow> (if d = CHR ''s'' then c_str s else [])
      | CharArg c \<Rightarrow> (if d = CHR ''c'' then [c] else []))"

fun format_c :: "string \<Rightarrow> arg list \<Rightarrow> string" where
  "format_c [] as = []"
| "format_c [c] as = [c]"
| "format_c (c # d # cs) as =
     (if c = CHR ''%'' then
        (if d = CHR ''%'' then CHR ''%'' # format_c cs as
         else (case as of
                 [] \<Rightarrow> format_c cs []
               | a # as' \<Rightarrow> convert d a @ format_c cs as'))
      else c # format_c (d # cs) as)"

section \<open>Objects in a store\<close>

text \<open>
  Where a claim is about copies and sharing, objects live in a store: a map from addresses
  to driver objects. An \<^verbatim>\<open>LCD_Display\<close> at address \<open>this\<close> holds its member \<^verbatim>\<open>lcd\<close> in
  place, at the same address. \<^verbatim>\<open>get_lcd\<close> returns a \<^verbatim>\<open>LiquidCrystal_I2C\<close>, not a reference
  to one: the \<^verbatim>\<open>return\<close> statement copies the member into the result object, whose
  address \<open>ret\<close> the caller provides. A method called on the result object changes the
  store at \<open>ret\<close>.
\<close>

type_synonym address = nat

type_synonym 'd store = "address \<Rightarrow> 'd option"

definition get_lcd_store :: "address \<Rightarrow> address \<Rightarrow> 'd store \<Rightarrow> 'd store" where
  "get_lcd_store this ret \<sigma> = \<sigma>(ret := \<sigma> this)"

definition call_on :: "address \<Rightarrow> ('d \<Rightarrow> 'd) \<Rightarrow> 'd store \<Rightarrow> 'd store" where
  "call_on p f \<sigma> = \<sigma>(p := map_option f (\<sigma> p))"

text \<open>
  A newly constructed \<^verbatim>\<open>LCD_Display\<close> over the recording driver with 16-bit \<^verbatim>\<open>int\<close>s,
  for the concrete instances.
\<close>

definition fresh_display :: "16 word recorder LCD_Display" where
  "fresh_display = LCD_Display_new recording"

text \<open>Stale bytes for the uninitialised array of \<^verbatim>\<open>writeString\<close>.\<close>

definition stale :: "nat \<Rightarrow> char" where
  "stale i = CHR ''?''"

text \<open>A format of 130 characters without a conversion: its expansion is the format itself.\<close>

definition long_format :: string where
  "long_format = replicate 130 CHR ''a''"

text \<open>What the recording driver keeps of its constructor's arguments.\<close>

definition config :: "'w recorder \<Rightarrow> nat \<times> nat \<times> nat" where
  "config d = (addr d, cols d, rows d)"

text \<open>A sequence of calls that uses every public method, one of them off the grid.\<close>

definition session :: "(16 word, arg list) method_call list" where
  "session =
     [Call_init_display, Call_clear, Call_print_xy 0 0 ''Spine'', Call_set_cursor 25 7,
      Call_print ''tester'', Call_writeString 0 3 ''%d%%'' [IntArg 50], Call_write CHR ''!'',
      Call_get_lcd]"

text \<open>A store with one \<^verbatim>\<open>LCD_Display\<close>, newly constructed, at address 0.\<close>

definition store0 :: "16 word recorder store" where
  "store0 = Map.empty(0 \<mapsto> lcd fresh_display)"

text \<open>The array \<^verbatim>\<open>buffer\<close> of \<^verbatim>\<open>writeString\<close> as \<^verbatim>\<open>vsnprintf\<close> leaves it.\<close>

abbreviation formatted ::
  "(string \<Rightarrow> 'a \<Rightarrow> string) \<Rightarrow> (nat \<Rightarrow> char) \<Rightarrow> string \<Rightarrow> 'a \<Rightarrow> string" where
  "formatted vformat uninit format args \<equiv>
     snd (vsnprintf vformat (map uninit [0..<128]) 128 format args)"

section \<open>C strings and the buffer\<close>

lemma c_str_append_NUL: "c_str (xs @ NUL # ys) = c_str xs"
  by (induction xs) (simp_all add: c_str_def)

lemma c_str_no_NUL: "NUL \<notin> set (c_str s)"
  unfolding c_str_def
proof
  assume "NUL \<in> set (takeWhile (\<lambda>c. c \<noteq> NUL) s)"
  then have "NUL \<noteq> NUL" by (rule set_takeWhileD [THEN conjunct2])
  then show False by simp
qed

lemma length_c_str: "length (c_str s) \<le> length s"
  by (simp add: c_str_def length_takeWhile_le)

lemma snd_vsnprintf:
  "0 < n \<Longrightarrow> snd (vsnprintf vformat s n format ap) =
     take (n - 1) (vformat format ap) @ NUL # drop (Suc (min (length (vformat format ap)) (n - 1))) s"
  by (simp add: vsnprintf_def Let_def min_def)

lemma length_vsnprintf:
  assumes "n \<le> length s"
  shows "length (snd (vsnprintf vformat s n format ap)) = length s"
proof (cases "n = 0")
  case True
  then show ?thesis by (simp add: vsnprintf_def)
next
  case False
  with assms show ?thesis by (simp add: snd_vsnprintf min_def)
qed

lemma c_str_vsnprintf:
  "0 < n \<Longrightarrow> c_str (snd (vsnprintf vformat s n format ap)) = c_str (take (n - 1) (vformat format ap))"
  by (simp add: snd_vsnprintf c_str_append_NUL)

lemma nth_vsnprintf:
  "0 < n \<Longrightarrow> snd (vsnprintf vformat s n format ap) ! min (length (vformat format ap)) (n - 1) = NUL"
  by (simp add: snd_vsnprintf nth_append min_def)

lemma take_vsnprintf:
  "0 < n \<Longrightarrow> take (min (length (vformat format ap)) (n - 1)) (snd (vsnprintf vformat s n format ap)) =
     take (n - 1) (vformat format ap)"
  by (simp add: snd_vsnprintf min_def)

lemma writeString_eq:
  "writeString D vformat uninit x y format args this =
     this\<lparr>lcd := lcd_print D (c_str (formatted vformat uninit format args))
                    (lcd_setCursor D x y (lcd this))\<rparr>"
  by (simp add: writeString_def Let_def split_beta)

lemma formatted_c_str:
  "c_str (formatted vformat uninit format args) = c_str (take 127 (vformat format args))"
  using c_str_vsnprintf [of 128 vformat "map uninit [0..<128]" format args] by simp

lemma formatted_length: "length (formatted vformat uninit format args) = 128"
  using length_vsnprintf [of 128 "map uninit [0..<128]" vformat format args] by simp


section \<open>What each method does to the driver\<close>

lemma recording_simps:
  "lcd_new recording a c r = \<lparr>addr = a, cols = c, rows = r, calls = []\<rparr>"
  "lcd_init recording d = record_call LcdInit d"
  "lcd_backlight recording d = record_call LcdBacklight d"
  "lcd_setCursor recording x y d = record_call (LcdSetCursor x y) d"
  "lcd_print recording s d = record_call (LcdPrint s) d"
  "lcd_clear recording d = record_call LcdClear d"
  "lcd_write recording ch d = record_call (LcdWrite ch) d"
  by (simp_all add: recording_def)

lemma record_call_simps:
  "calls (record_call c d) = calls d @ [c]"
  "addr (record_call c d) = addr d"
  "cols (record_call c d) = cols d"
  "rows (record_call c d) = rows d"
  by (simp_all add: record_call_def)

lemma init_display_eq:
  "init_display D this = this\<lparr>lcd := lcd_backlight D (lcd_init D (lcd this))\<rparr>"
  by (simp add: init_display_def)

lemma print_xy_eq:
  "print_xy D x y message this =
     this\<lparr>lcd := lcd_print D message (lcd_setCursor D x y (lcd this))\<rparr>"
  by (simp add: print_xy_def)

lemma init_display_calls:
  "calls (lcd (init_display recording this)) = calls (lcd this) @ [LcdInit, LcdBacklight]"
  by (simp add: init_display_eq recording_simps record_call_simps)

lemma print_xy_calls:
  "calls (lcd (print_xy recording x y message this)) =
     calls (lcd this) @ [LcdSetCursor x y, LcdPrint message]"
  by (simp add: print_xy_eq recording_simps record_call_simps)

lemma clear_calls: "calls (lcd (clear recording this)) = calls (lcd this) @ [LcdClear]"
  by (simp add: clear_def recording_simps record_call_simps)

lemma set_cursor_calls:
  "calls (lcd (set_cursor recording x y this)) = calls (lcd this) @ [LcdSetCursor x y]"
  by (simp add: set_cursor_def recording_simps record_call_simps)

lemma print_calls:
  "calls (lcd (print recording message this)) = calls (lcd this) @ [LcdPrint message]"
  by (simp add: print_def recording_simps record_call_simps)

lemma write_char_calls:
  "calls (lcd (write_char recording character this)) = calls (lcd this) @ [LcdWrite character]"
  by (simp add: write_char_def recording_simps record_call_simps)

lemma writeString_calls:
  "calls (lcd (writeString recording vformat uninit x y format args this)) =
     calls (lcd this) @ [LcdSetCursor x y, LcdPrint (c_str (formatted vformat uninit format args))]"
  by (simp add: writeString_eq recording_simps record_call_simps)


lemma calls_fresh_display: "calls (lcd fresh_display) = []"
  by (simp add: fresh_display_def LCD_Display_new_def recording_simps)


lemma invoke_keeps:
  assumes "\<And>d. cfg (lcd_init D d) = cfg d"
    and "\<And>d. cfg (lcd_backlight D d) = cfg d"
    and "\<And>x y d. cfg (lcd_setCursor D x y d) = cfg d"
    and "\<And>s d. cfg (lcd_print D s d) = cfg d"
    and "\<And>d. cfg (lcd_clear D d) = cfg d"
    and "\<And>c d. cfg (lcd_write D c d) = cfg d"
  shows "cfg (lcd (snd (invoke D vformat uninit c this))) = cfg (lcd this)"
  using assms
  by (cases c)
    (simp_all add: get_lcd_def init_display_eq print_xy_eq clear_def set_cursor_def print_def
      writeString_eq write_char_def)

lemma formatted_c_str_take:
  "c_str (formatted (\<lambda>f a. take 127 (vformat f a)) uninit format args) =
     c_str (formatted vformat uninit format args)"
  by (simp add: formatted_c_str)

section \<open>The claims\<close>

text \<open>
  C1, as stated, fails for \<^verbatim>\<open>writeString\<close>: the string the driver's \<^verbatim>\<open>print\<close> receives is not
  the format the method received. With the format \<^verbatim>\<open>%d\<close> and the argument 5 the driver
  gets \<^verbatim>\<open>5\<close>; with a format of 130 letters and no conversion it gets the first 127.
\<close>

theorem writeString_does_not_forward_format:
  "calls (lcd (writeString recording format_c stale 0 0 ''%d'' [IntArg 5] fresh_display)) =
     [LcdSetCursor 0 0, LcdPrint ''5'']
   \<and> ''5'' \<noteq> ''%d''
   \<and> calls (lcd (writeString recording format_c stale 0 0 (replicate 130 CHR ''a'') []
        fresh_display)) =
     [LcdSetCursor 0 0, LcdPrint (replicate 127 CHR ''a'')]
   \<and> replicate 127 CHR ''a'' \<noteq> replicate 130 CHR ''a''"
proof (intro conjI)
  have "c_str (formatted format_c stale ''%d'' [IntArg 5]) = ''5''"
    by code_simp
  then show "calls (lcd (writeString recording format_c stale 0 0 ''%d'' [IntArg 5]
      fresh_display)) = [LcdSetCursor 0 0, LcdPrint ''5'']"
    by (simp add: writeString_calls calls_fresh_display)
  show "''5'' \<noteq> ''%d''"
    by simp
  have "c_str (formatted format_c stale (replicate 130 CHR ''a'') []) =
      replicate 127 CHR ''a''"
    by code_simp
  then show "calls (lcd (writeString recording format_c stale 0 0
      (replicate 130 CHR ''a'') [] fresh_display)) =
      [LcdSetCursor 0 0, LcdPrint (replicate 127 CHR ''a'')]"
    by (simp add: writeString_calls calls_fresh_display)
  have "length (replicate 127 CHR ''a'') \<noteq> length (replicate 130 CHR ''a'')"
    by simp
  then show "replicate 127 CHR ''a'' \<noteq> replicate 130 CHR ''a''"
    by (rule contrapos_nn) simp
qed

text \<open>
  C1, amended. Every public method passes the values it received to the driver unchanged,
  except the format and the arguments of \<^verbatim>\<open>writeString\<close>. \<^verbatim>\<open>get_lcd\<close> makes no driver call
  and returns the member; \<^verbatim>\<open>init_display\<close> calls \<^verbatim>\<open>init\<close> and \<^verbatim>\<open>backlight\<close>;
  \<^verbatim>\<open>print(x, y, message)\<close>, \<^verbatim>\<open>clear\<close>, \<^verbatim>\<open>set_cursor\<close>, \<^verbatim>\<open>print(message)\<close> and
  \<^verbatim>\<open>write\<close> make the driver calls of the same name with the same values.
  \<^verbatim>\<open>writeString\<close> passes \<open>x\<close> and \<open>y\<close> unchanged to \<^verbatim>\<open>setCursor\<close>, and passes to
  \<^verbatim>\<open>print\<close> the expansion of the format with the arguments, cut to its first 127
  characters and read as a C string.
\<close>

theorem methods_forward_arguments:
  "fst (get_lcd this) = lcd this \<and> snd (get_lcd this) = this
   \<and> calls (lcd (init_display recording this)) = calls (lcd this) @ [LcdInit, LcdBacklight]
   \<and> calls (lcd (print_xy recording x y message this)) =
       calls (lcd this) @ [LcdSetCursor x y, LcdPrint message]
   \<and> calls (lcd (clear recording this)) = calls (lcd this) @ [LcdClear]
   \<and> calls (lcd (set_cursor recording x y this)) = calls (lcd this) @ [LcdSetCursor x y]
   \<and> calls (lcd (print recording message this)) = calls (lcd this) @ [LcdPrint message]
   \<and> calls (lcd (write_char recording character this)) = calls (lcd this) @ [LcdWrite character]
   \<and> calls (lcd (writeString recording vformat uninit x y format args this)) =
       calls (lcd this) @ [LcdSetCursor x y, LcdPrint (c_str (take 127 (vformat format args)))]"
proof (intro conjI)
  show "fst (get_lcd this) = lcd this" and "snd (get_lcd this) = this"
    by (simp_all add: get_lcd_def)
  show "calls (lcd (init_display recording this)) = calls (lcd this) @ [LcdInit, LcdBacklight]"
    by (rule init_display_calls)
  show "calls (lcd (print_xy recording x y message this)) =
      calls (lcd this) @ [LcdSetCursor x y, LcdPrint message]"
    by (rule print_xy_calls)
  show "calls (lcd (clear recording this)) = calls (lcd this) @ [LcdClear]"
    by (rule clear_calls)
  show "calls (lcd (set_cursor recording x y this)) = calls (lcd this) @ [LcdSetCursor x y]"
    by (rule set_cursor_calls)
  show "calls (lcd (print recording message this)) = calls (lcd this) @ [LcdPrint message]"
    by (rule print_calls)
  show "calls (lcd (write_char recording character this)) =
      calls (lcd this) @ [LcdWrite character]"
    by (rule write_char_calls)
  show "calls (lcd (writeString recording vformat uninit x y format args this)) =
      calls (lcd this) @ [LcdSetCursor x y, LcdPrint (c_str (take 127 (vformat format args)))]"
    by (simp add: writeString_calls formatted_c_str)
qed

text \<open>
  C2. For every \<^verbatim>\<open>int\<close> \<open>x\<close> and \<open>y\<close> and every message, \<^verbatim>\<open>print(x, y, message)\<close> calls the
  driver's \<^verbatim>\<open>setCursor\<close> with exactly \<open>(x, y)\<close> and then the driver's \<^verbatim>\<open>print\<close> with
  exactly the message: for every driver the new driver state is \<^verbatim>\<open>print\<close> after
  \<^verbatim>\<open>setCursor\<close>, the recording driver logs these two calls in this order and no other,
  and the call returns nothing.
\<close>

theorem print_xy_sets_cursor_then_prints:
  "print_xy D x y message this =
     this\<lparr>lcd := lcd_print D message (lcd_setCursor D x y (lcd this))\<rparr>
   \<and> calls (lcd (print_xy recording x' y' message this')) =
       calls (lcd this') @ [LcdSetCursor x' y', LcdPrint message]
   \<and> invoke D vformat uninit (Call_print_xy x y message) this =
       (Void, print_xy D x y message this)"
proof (intro conjI)
  show "print_xy D x y message this =
      this\<lparr>lcd := lcd_print D message (lcd_setCursor D x y (lcd this))\<rparr>"
    by (rule print_xy_eq)
  show "calls (lcd (print_xy recording x' y' message this')) =
      calls (lcd this') @ [LcdSetCursor x' y', LcdPrint message]"
    by (rule print_xy_calls)
  show "invoke D vformat uninit (Call_print_xy x y message) this =
      (Void, print_xy D x y message this)"
    by simp
qed

theorem print_xy_example:
  "calls (lcd (print_xy recording 3 1 ''Spine'' fresh_display)) =
     [LcdSetCursor 3 1, LcdPrint ''Spine'']"
  using print_xy_sets_cursor_then_prints
    [where x' = 3 and y' = 1 and message = "''Spine''" and this' = fresh_display,
     THEN conjunct2, THEN conjunct1]
  by (simp add: calls_fresh_display)

text \<open>
  C3. \<^verbatim>\<open>writeString(x, y, format, ...)\<close> first expands the format with the arguments into
  the 128-byte array: the array keeps its 128 bytes, starts with the first 127 characters
  of the expansion (all of it when it is shorter) and has a NUL right after them. The
  array depends on the format, the arguments and the expansion only, not on the driver.
  Then the method calls \<^verbatim>\<open>setCursor\<close> with \<open>(x, y)\<close> and \<^verbatim>\<open>print\<close> with the C string in
  the array, in this order.
\<close>

theorem writeString_formats_then_displays:
  "length (formatted vformat uninit format args) = 128
   \<and> take (min (length (vformat format args)) 127) (formatted vformat uninit format args) =
       take 127 (vformat format args)
   \<and> formatted vformat uninit format args ! min (length (vformat format args)) 127 = NUL
   \<and> writeString D vformat uninit x y format args this =
       this\<lparr>lcd := lcd_print D (c_str (formatted vformat uninit format args))
                      (lcd_setCursor D x y (lcd this))\<rparr>
   \<and> calls (lcd (writeString recording vformat uninit x' y' format args this')) =
       calls (lcd this') @
         [LcdSetCursor x' y', LcdPrint (c_str (formatted vformat uninit format args))]"
proof (intro conjI)
  show "length (formatted vformat uninit format args) = 128"
    by (rule formatted_length)
  show "take (min (length (vformat format args)) 127) (formatted vformat uninit format args) =
      take 127 (vformat format args)"
    using take_vsnprintf [of 128 vformat format args "map uninit [0..<128]"] by simp
  show "formatted vformat uninit format args ! min (length (vformat format args)) 127 = NUL"
    using nth_vsnprintf [of 128 vformat "map uninit [0..<128]" format args] by simp
  show "writeString D vformat uninit x y format args this =
      this\<lparr>lcd := lcd_print D (c_str (formatted vformat uninit format args))
                     (lcd_setCursor D x y (lcd this))\<rparr>"
    by (rule writeString_eq)
  show "calls (lcd (writeString recording vformat uninit x' y' format args this')) =
      calls (lcd this') @
        [LcdSetCursor x' y', LcdPrint (c_str (formatted vformat uninit format args))]"
    by (rule writeString_calls)
qed

theorem writeString_example:
  "calls (lcd (writeString recording format_c stale 0 2 ''T=%d%% %s''
        [IntArg (- 42), StrArg ''ok''] fresh_display)) =
     [LcdSetCursor 0 2, LcdPrint ''T=-42% ok'']"
proof -
  have "c_str (formatted format_c stale ''T=%d%% %s'' [IntArg (- 42), StrArg ''ok'']) =
      ''T=-42% ok''"
    by code_simp
  then show ?thesis
    using writeString_formats_then_displays
      [where vformat = format_c and uninit = stale and format = "''T=%d%% %s''"
         and args = "[IntArg (- 42), StrArg ''ok'']" and x' = 0 and y' = 2 and this' = fresh_display,
       THEN conjunct2, THEN conjunct2, THEN conjunct2, THEN conjunct2]
    by (simp add: calls_fresh_display)
qed

text \<open>
  C4. No method checks a cursor coordinate. For every \<open>x\<close> and \<open>y\<close> of the machine integer
  type, on or off the 20 by 4 grid, \<^verbatim>\<open>set_cursor\<close>, \<^verbatim>\<open>print(x, y, message)\<close> and
  \<^verbatim>\<open>writeString\<close> hand \<open>x\<close> and \<open>y\<close> to the driver's \<^verbatim>\<open>setCursor\<close> as they are, and
  return normally with no value.
\<close>

theorem cursor_coordinates_unchecked:
  "invoke recording vformat uninit (Call_set_cursor x y) this = (Void, set_cursor recording x y this)
   \<and> calls (lcd (set_cursor recording x y this)) = calls (lcd this) @ [LcdSetCursor x y]
   \<and> invoke recording vformat uninit (Call_print_xy x y message) this =
       (Void, print_xy recording x y message this)
   \<and> calls (lcd (print_xy recording x y message this)) =
       calls (lcd this) @ [LcdSetCursor x y, LcdPrint message]
   \<and> invoke recording vformat uninit (Call_writeString x y format args) this =
       (Void, writeString recording vformat uninit x y format args this)
   \<and> calls (lcd (writeString recording vformat uninit x y format args this)) =
       calls (lcd this) @ [LcdSetCursor x y, LcdPrint (c_str (formatted vformat uninit format args))]"
proof (intro conjI)
  show "invoke recording vformat uninit (Call_set_cursor x y) this =
      (Void, set_cursor recording x y this)"
    by simp
  show "calls (lcd (set_cursor recording x y this)) = calls (lcd this) @ [LcdSetCursor x y]"
    by (rule set_cursor_calls)
  show "invoke recording vformat uninit (Call_print_xy x y message) this =
      (Void, print_xy recording x y message this)"
    by simp
  show "calls (lcd (print_xy recording x y message this)) =
      calls (lcd this) @ [LcdSetCursor x y, LcdPrint message]"
    by (rule print_xy_calls)
  show "invoke recording vformat uninit (Call_writeString x y format args) this =
      (Void, writeString recording vformat uninit x y format args this)"
    by simp
  show "calls (lcd (writeString recording vformat uninit x y format args this)) =
      calls (lcd this) @ [LcdSetCursor x y, LcdPrint (c_str (formatted vformat uninit format args))]"
    by (rule writeString_calls)
qed

theorem cursor_coordinates_unchecked_example:
  "sint (- 1 :: 16 word) = - 1 \<and> unat (300 :: 16 word) = 300
   \<and> calls (lcd (set_cursor recording (- 1) 300 fresh_display)) = [LcdSetCursor (- 1) 300]
   \<and> calls (lcd (print_xy recording 20 4 ''x'' fresh_display)) = [LcdSetCursor 20 4, LcdPrint ''x'']
   \<and> fst (invoke recording format_c stale (Call_set_cursor (- 1) 300) fresh_display) = Void"
  using cursor_coordinates_unchecked
    [where x = "- 1" and y = 300 and this = fresh_display and vformat = format_c
       and uninit = stale and message = "''x''" and format = "''''" and args = "[]"]
    cursor_coordinates_unchecked
    [where x = 20 and y = 4 and this = fresh_display and vformat = format_c
       and uninit = stale and message = "''x''" and format = "''''" and args = "[]"]
  by (simp add: calls_fresh_display)

text \<open>
  C5. When the expansion does not fit the 128-byte array (it has 128 characters or more),
  \<^verbatim>\<open>vsnprintf\<close> returns a length of at least 128, which \<^verbatim>\<open>writeString\<close> drops; the method
  prints the first 127 characters of the expansion (as a C string) and returns normally
  with no value. Its result and its effect are those of a call whose expansion is the cut
  text itself, so nothing tells the caller that text was lost.
\<close>

theorem writeString_truncation_silent:
  assumes "128 \<le> length (vformat format args)"
  shows "128 \<le> fst (vsnprintf vformat (map uninit [0..<128]) 128 format args)
    \<and> invoke D vformat uninit (Call_writeString x y format args) this =
      (Void, this\<lparr>lcd := lcd_print D (c_str (take 127 (vformat format args)))
                             (lcd_setCursor D x y (lcd this))\<rparr>)
    \<and> invoke D vformat uninit (Call_writeString x y format args) this =
      invoke D (\<lambda>f a. take 127 (vformat f a)) uninit (Call_writeString x y format args) this"
proof (intro conjI)
  show "128 \<le> fst (vsnprintf vformat (map uninit [0..<128]) 128 format args)"
    using assms by (simp add: vsnprintf_def Let_def)
  show "invoke D vformat uninit (Call_writeString x y format args) this =
      (Void, this\<lparr>lcd := lcd_print D (c_str (take 127 (vformat format args)))
                             (lcd_setCursor D x y (lcd this))\<rparr>)"
    by (simp only: invoke.simps writeString_eq formatted_c_str)
  show "invoke D vformat uninit (Call_writeString x y format args) this =
      invoke D (\<lambda>f a. take 127 (vformat f a)) uninit (Call_writeString x y format args) this"
    by (simp only: invoke.simps writeString_eq formatted_c_str_take)
qed

theorem writeString_truncation_silent_example:
  "128 \<le> length (format_c long_format [])
   \<and> invoke recording format_c stale (Call_writeString 0 0 long_format []) fresh_display =
       (Void, fresh_display\<lparr>lcd := (lcd fresh_display)
           \<lparr>calls := [LcdSetCursor 0 0, LcdPrint (replicate 127 CHR ''a'')]\<rparr>\<rparr>)"
proof -
  have len: "128 \<le> length (format_c long_format [])"
    by code_simp
  have "c_str (take 127 (format_c long_format [])) = replicate 127 CHR ''a''"
    by code_simp
  with len show ?thesis
    using writeString_truncation_silent
      [where vformat = format_c and format = long_format and args = "[]" and uninit = stale
         and D = recording and x = 0 and y = 0 and this = fresh_display, OF len]
    by (simp add: recording_simps record_call_def calls_fresh_display)
qed

text \<open>
  C6. The constructor builds the driver with address \<open>0x27\<close>, 20 columns and 4 rows, and no
  method of the class passes an address or a geometry to the driver afterwards. So for
  every driver whose constructor stores its three arguments (\<open>cfg\<close> reads them back) and
  whose six methods keep them, the configuration of a new \<^verbatim>\<open>LCD_Display\<close> is
  \<open>(0x27, 20, 4)\<close>, every method call keeps the configuration, and after any sequence of
  method calls it still is \<open>(0x27, 20, 4)\<close>.
\<close>

theorem configuration_fixed:
  assumes new: "\<And>a c r. cfg (lcd_new D a c r) = (a, c, r)"
    and "\<And>d. cfg (lcd_init D d) = cfg d"
    and "\<And>d. cfg (lcd_backlight D d) = cfg d"
    and "\<And>x y d. cfg (lcd_setCursor D x y d) = cfg d"
    and "\<And>s d. cfg (lcd_print D s d) = cfg d"
    and "\<And>d. cfg (lcd_clear D d) = cfg d"
    and "\<And>c d. cfg (lcd_write D c d) = cfg d"
  shows "cfg (lcd (LCD_Display_new D)) = (0x27, 20, 4)
    \<and> cfg (lcd (snd (invoke D vformat uninit c this))) = cfg (lcd this)
    \<and> cfg (lcd (invoke_all D vformat uninit cs (LCD_Display_new D))) = (0x27, 20, 4)"
proof (intro conjI)
  show start: "cfg (lcd (LCD_Display_new D)) = (0x27, 20, 4)"
    by (simp add: LCD_Display_new_def new)
  show "cfg (lcd (snd (invoke D vformat uninit c this))) = cfg (lcd this)"
    using assms(2-) by (rule invoke_keeps)
  have "cfg (lcd (invoke_all D vformat uninit cs obj)) = cfg (lcd obj)" for obj :: "'a LCD_Display"
  proof (induction cs arbitrary: obj)
    case Nil
    show ?case by simp
  next
    case (Cons c cs)
    have "cfg (lcd (snd (invoke D vformat uninit c obj))) = cfg (lcd obj)"
      using assms(2-) by (rule invoke_keeps)
    with Cons.IH show ?case by simp
  qed
  with start show "cfg (lcd (invoke_all D vformat uninit cs (LCD_Display_new D))) = (0x27, 20, 4)"
    by simp
qed

theorem configuration_fixed_example:
  "config (lcd fresh_display) = (0x27, 20, 4)
   \<and> config (lcd (invoke_all recording format_c stale session fresh_display)) = (0x27, 20, 4)"
  using configuration_fixed [where cfg = config and D = "recording :: (16 word recorder, 16 word) driver"
      and vformat = format_c and uninit = stale and cs = session and c = Call_clear
      and this = fresh_display]
  by (simp add: config_def recording_simps record_call_simps fresh_display_def)

text \<open>
  C7, as stated, fails: \<^verbatim>\<open>get_lcd()\<close> is declared under \<^verbatim>\<open>public:\<close> and is not among the
  operations the specification lists.
\<close>

theorem get_lcd_public_but_not_listed:
  "M_get_lcd \<in> set public_methods \<and> M_get_lcd \<notin> set spec_operations
   \<and> method_of Call_get_lcd = M_get_lcd"
  by (simp add: public_methods_def members_def spec_operations_def)

text \<open>
  C7, amended. The public methods of the class are exactly \<^verbatim>\<open>get_lcd()\<close> and the seven
  listed operations \<^verbatim>\<open>init_display()\<close>, \<^verbatim>\<open>print(x,y,msg)\<close>, \<^verbatim>\<open>print(msg)\<close>, \<^verbatim>\<open>clear()\<close>,
  \<^verbatim>\<open>set_cursor(x,y)\<close>, \<^verbatim>\<open>writeString(x,y,format,...)\<close> and \<^verbatim>\<open>write(char)\<close>: eight
  methods, and every call from outside is a call of one of them.
\<close>

theorem public_interface:
  "set public_methods = insert M_get_lcd (set spec_operations)
   \<and> M_get_lcd \<notin> set spec_operations
   \<and> distinct public_methods
   \<and> length public_methods = 8
   \<and> method_of c \<in> set public_methods"
proof (intro conjI)
  show "set public_methods = insert M_get_lcd (set spec_operations)"
    by (auto simp add: public_methods_def members_def spec_operations_def)
  show "M_get_lcd \<notin> set spec_operations"
    by (simp add: spec_operations_def)
  show "distinct public_methods" and "length public_methods = 8"
    by (simp_all add: public_methods_def members_def)
  show "method_of c \<in> set public_methods"
    by (cases c) (simp_all add: public_methods_def members_def)
qed

text \<open>
  C8. Every method reads and writes only the member \<^verbatim>\<open>lcd\<close>. Whatever else an object
  holds (\<open>LCD_Display.more\<close>) is the same after the call; the result and the new
  \<^verbatim>\<open>LCD_Display\<close> part are those of the call on the \<^verbatim>\<open>LCD_Display\<close> part alone; and the
  stale bytes of the local array of \<^verbatim>\<open>writeString\<close> have no influence.
\<close>

theorem only_lcd_member_touched:
  "LCD_Display.more (snd (invoke D vformat uninit c this)) = LCD_Display.more this
   \<and> LCD_Display.truncate (snd (invoke D vformat uninit c this)) =
       snd (invoke D vformat uninit c (LCD_Display.truncate this))
   \<and> fst (invoke D vformat uninit c this) =
       fst (invoke D vformat uninit c (LCD_Display.truncate this))
   \<and> invoke D vformat uninit c this = invoke D vformat uninit' c this"
proof (intro conjI)
  show "LCD_Display.more (snd (invoke D vformat uninit c this)) = LCD_Display.more this"
    by (cases c)
      (simp_all add: get_lcd_def init_display_eq print_xy_eq clear_def set_cursor_def print_def
        writeString_eq write_char_def)
  show "LCD_Display.truncate (snd (invoke D vformat uninit c this)) =
      snd (invoke D vformat uninit c (LCD_Display.truncate this))"
    by (cases c)
      (simp_all add: get_lcd_def init_display_eq print_xy_eq clear_def set_cursor_def print_def
        writeString_eq write_char_def LCD_Display.truncate_def)
  show "fst (invoke D vformat uninit c this) =
      fst (invoke D vformat uninit c (LCD_Display.truncate this))"
    by (cases c) (simp_all add: get_lcd_def LCD_Display.truncate_def)
  show "invoke D vformat uninit c this = invoke D vformat uninit' c this"
    by (cases c) (simp_all add: writeString_eq formatted_c_str)
qed

text \<open>
  C9. \<^verbatim>\<open>get_lcd()\<close> returns the member by value and leaves the object as it is. In the
  store, where the result object \<open>ret\<close> is another object than the member: after the call
  the member is unchanged and the result object is equal to it, and a method called on the
  result object changes the result object and not the member.
\<close>

theorem get_lcd_returns_copy:
  assumes "ret \<noteq> this"
  shows "get_lcd obj = (lcd obj, obj)
    \<and> get_lcd_store this ret \<sigma> this = \<sigma> this
    \<and> get_lcd_store this ret \<sigma> ret = \<sigma> this
    \<and> call_on ret f (get_lcd_store this ret \<sigma>) this = \<sigma> this
    \<and> call_on ret f (get_lcd_store this ret \<sigma>) ret = map_option f (\<sigma> this)"
  using assms by (simp add: get_lcd_def get_lcd_store_def call_on_def)

theorem get_lcd_returns_copy_example:
  "(1 :: address) \<noteq> 0
   \<and> call_on 1 (lcd_clear recording) (get_lcd_store 0 1 store0) 0 =
       Some \<lparr>addr = 39, cols = 20, rows = 4, calls = []\<rparr>
   \<and> call_on 1 (lcd_clear recording) (get_lcd_store 0 1 store0) 1 =
       Some \<lparr>addr = 39, cols = 20, rows = 4, calls = [LcdClear]\<rparr>"
proof -
  have ne: "(1 :: address) \<noteq> 0" by simp
  show ?thesis
    using get_lcd_returns_copy [OF ne, where \<sigma> = store0 and f = "lcd_clear recording" and obj = fresh_display]
    by (simp add: store0_def fresh_display_def LCD_Display_new_def recording_simps record_call_def)
qed

text \<open>
  C10. For every format and argument list, the array of \<^verbatim>\<open>writeString\<close> still has its 128
  bytes after \<^verbatim>\<open>vsnprintf\<close> (nothing was stored beyond its end) and holds a NUL at an
  index below 128, right after the characters stored. The C string the driver's \<^verbatim>\<open>print\<close>
  receives is therefore terminated inside the array and has at most 127 characters.
\<close>

theorem writeString_buffer_bounded:
  "length (formatted vformat uninit format args) = 128
   \<and> formatted vformat uninit format args ! min (length (vformat format args)) 127 = NUL
   \<and> min (length (vformat format args)) 127 < 128
   \<and> length (c_str (formatted vformat uninit format args)) \<le> 127
   \<and> NUL \<notin> set (c_str (formatted vformat uninit format args))
   \<and> calls (lcd (writeString recording vformat uninit x y format args this)) =
       calls (lcd this) @ [LcdSetCursor x y, LcdPrint (c_str (formatted vformat uninit format args))]"
proof (intro conjI)
  show "length (formatted vformat uninit format args) = 128"
    by (rule formatted_length)
  show "formatted vformat uninit format args ! min (length (vformat format args)) 127 = NUL"
    using nth_vsnprintf [of 128 vformat "map uninit [0..<128]" format args] by simp
  show "min (length (vformat format args)) 127 < 128"
    by simp
  have "length (c_str (take 127 (vformat format args))) \<le> length (take 127 (vformat format args))"
    by (rule length_c_str)
  then show "length (c_str (formatted vformat uninit format args)) \<le> 127"
    by (simp add: formatted_c_str)
  show "NUL \<notin> set (c_str (formatted vformat uninit format args))"
    by (rule c_str_no_NUL)
  show "calls (lcd (writeString recording vformat uninit x y format args this)) =
      calls (lcd this) @ [LcdSetCursor x y, LcdPrint (c_str (formatted vformat uninit format args))]"
    by (rule writeString_calls)
qed

end
